theory Spec2Isabelle
  imports Main
begin

section \<open>Data model\<close>

text \<open>
  A \<open>Resource\<close> of the API documentation parser. The code reads two of its members:
  \<open>name\<close> and \<open>deprecated\<close>. The flag is optional in the parser's type, so it is a
  \<open>bool option\<close> here (\<open>None\<close>: absent or null); the code only tests it for truthiness.
\<close>

record resource =
  name :: string
  deprecated :: "bool option"

text \<open>JavaScript truthiness of an optional boolean: absent, null and false are falsy.\<close>

fun truthy :: "bool option \<Rightarrow> bool" where
  "truthy None = False"
| "truthy (Some b) = b"

text \<open>
  The third conjunct of the guard at line 90 tests the array \<open>resources\<close> itself.
  The prop has type \<open>Resource[]\<close>, and every array, the empty one too, is truthy.
\<close>

definition truthy_array :: "'a list \<Rightarrow> bool" where
  "truthy_array xs = True"

text \<open>
  React nodes, as far as the component tells them apart: a function child (the
  render-prop), a custom-routes element, an explicit resource declaration
  (\<open><Resource>\<close> or \<open><ResourceGuesser>\<close>, the latter with its \<open>name\<close> and optional
  \<open>key\<close>), any other node, and an array (or fragment) of nodes. Functions and opaque
  elements carry a number that tells two of them apart.
\<close>

datatype node =
    RenderFunction nat
  | CustomRoutesEl nat
  | ResourceEl string
  | ResourceGuesserEl string "string option"
  | OtherNode nat
  | NodeArray "node list"

text \<open>
  The object that \<open>getRoutesAndResourcesFromNodes\<close> returns. The component
  destructures its \<open>resources\<close> member under the name \<open>resourceChildren\<close>.
\<close>

record routes_and_resources =
  customRoutes :: "node list"
  resourceChildren :: "node list"

record AdminResourcesGuesserProps =
  children :: node
  includeDeprecated :: bool
  resources :: "resource list"
  loading :: bool

text \<open>
  What one render of \<open>AdminResourcesGuesser\<close> produces: the element returned (the
  loading page, or the admin root around the decided children) and the arguments of
  the calls to \<open>displayOverrideCode\<close> made during that render.
\<close>

datatype ui = LoadingPage | AdminEl node

record render_result =
  ui :: ui
  displayed :: "string list"

section \<open>The reconciler: \<open>AdminResourcesGuesser\<close>\<close>

text \<open>\<open>getOverrideCode\<close>, lines 51 to 60: a header, then one line per resource.\<close>

definition override_header :: string where
  "override_header =
     ''If you want to override at least one resource, paste this content in the <AdminGuesser> component of your app:''
     @ [CHR 0x0A, CHR 0x0A]"

definition override_line :: "resource \<Rightarrow> string" where
  "override_line r =
     ''<ResourceGuesser name={'' @ [CHR 0x22] @ name r @ [CHR 0x22] @ ''} />'' @ [CHR 0x0A]"

definition getOverrideCode :: "resource list \<Rightarrow> string" where
  "getOverrideCode rs = foldl (\<lambda>code r. code @ override_line r) override_header rs"

text \<open>Lines 92 to 94: the resources that are guessed.\<close>

definition guessResources :: "bool \<Rightarrow> resource list \<Rightarrow> resource list" where
  "guessResources incl rs =
     (if incl then rs else filter (\<lambda>r. \<not> truthy (deprecated r)) rs)"

text \<open>Line 98: the element generated for one resource, keyed by its name.\<close>

definition guesser_element :: "resource \<Rightarrow> node" where
  "guesser_element r = ResourceGuesserEl (name r) (Some (name r))"

text \<open>
  \<open>AdminResourcesGuesser\<close>, lines 67 to 109. The two helpers it imports from
  \<open>getRoutesAndResourcesFromNodes.js\<close> are parameters: what is proved of the component
  holds whatever they compute.
\<close>

definition AdminResourcesGuesser ::
  "(node \<Rightarrow> bool) \<Rightarrow> (node \<Rightarrow> routes_and_resources) \<Rightarrow>
   AdminResourcesGuesserProps \<Rightarrow> render_result" where
  "AdminResourcesGuesser isSingleChildFunction getRoutesAndResourcesFromNodes props =
     (if loading props then \<lparr>ui = LoadingPage, displayed = []\<rparr>
      else
        let adminChildren = children props;
            found = getRoutesAndResourcesFromNodes (children props)
        in if \<not> isSingleChildFunction adminChildren
              \<and> length (resourceChildren found) = 0
              \<and> truthy_array (resources props)
           then
             let guessed = guessResources (includeDeprecated props) (resources props)
             in \<lparr>ui = AdminEl (NodeArray (customRoutes found @ map guesser_element guessed)),
                 displayed = [getOverrideCode guessed]\<rparr>
           else \<lparr>ui = AdminEl adminChildren, displayed = []\<rparr>)"

section \<open>The helpers of \<open>getRoutesAndResourcesFromNodes.js\<close>\<close>

text \<open>
  Modelled from the spec: \<open>isSingleChildFunction\<close>, exported by
  \<open>getRoutesAndResourcesFromNodes.js\<close>, a file of the repository that is not among the
  sources. The spec (4.2, step 3a): children "is a single function (render-prop
  pattern)".
\<close>

fun isSingleChildFunction_spec :: "node \<Rightarrow> bool" where
  "isSingleChildFunction_spec (RenderFunction f) = True"
| "isSingleChildFunction_spec _ = False"

text \<open>
  Modelled from the spec: \<open>getRoutesAndResourcesFromNodes\<close>, the default export of the
  same missing file. The spec (4.2, step 2): "Partition children into two groups by
  scanning the declared child element tree: recognized custom route elements, and
  recognized resource declaration elements (reused verbatim), each preserving original
  order." The scan walks the tree and appends each recognised element to its group.
\<close>

fun scan_node :: "node \<Rightarrow> routes_and_resources \<Rightarrow> routes_and_resources" where
  "scan_node (CustomRoutesEl i) acc =
     acc\<lparr>customRoutes := customRoutes acc @ [CustomRoutesEl i]\<rparr>"
| "scan_node (ResourceEl n) acc =
     acc\<lparr>resourceChildren := resourceChildren acc @ [ResourceEl n]\<rparr>"
| "scan_node (ResourceGuesserEl n k) acc =
     acc\<lparr>resourceChildren := resourceChildren acc @ [ResourceGuesserEl n k]\<rparr>"
| "scan_node (NodeArray ns) acc = fold scan_node ns acc"
| "scan_node (RenderFunction f) acc = acc"
| "scan_node (OtherNode i) acc = acc"

definition getRoutesAndResourcesFromNodes_spec :: "node \<Rightarrow> routes_and_resources" where
  "getRoutesAndResourcesFromNodes_spec ch =
     scan_node ch \<lparr>customRoutes = [], resourceChildren = []\<rparr>"

text \<open>
  The vocabulary of the claims about a declared child tree: its nodes in declaration
  order (arrays flattened, left to right), and the two kinds the scan recognises.
\<close>

fun declared :: "node \<Rightarrow> node list" where
  "declared (NodeArray ns) = concat (map declared ns)"
| "declared n = [n]"

fun is_custom_route :: "node \<Rightarrow> bool" where
  "is_custom_route (CustomRoutesEl i) = True"
| "is_custom_route _ = False"

fun is_resource_declaration :: "node \<Rightarrow> bool" where
  "is_resource_declaration (ResourceEl n) = True"
| "is_resource_declaration (ResourceGuesserEl n k) = True"
| "is_resource_declaration _ = False"

section \<open>The orchestrator: \<open>AdminGuesser\<close>\<close>

text \<open>
  A JavaScript value that is thrown or that rejects a promise: the \<open>Error\<close> the code
  creates itself (with its message), or any other value.
\<close>

datatype 'e exn = Error string | Thrown 'e

text \<open>
  How the promise returned by one call of \<open>dataProvider.introspect()\<close> settles: it is
  fulfilled with \<open>{ data }\<close>, of which the code reads \<open>data.resources\<close> (\<open>None\<close> when
  absent or null), or it is rejected with an error.
\<close>

datatype 'e settled = Fulfilled "resource list option" | Rejected "'e exn"

text \<open>
  The \<open>dataProvider\<close> prop. \<open>identity\<close> is the object's identity, which is what the
  dependency list of the effect compares. \<open>introspect\<close> is \<open>None\<close> when the member of
  that name is not a function; otherwise it holds the outcome of the promise that a
  call returns.
\<close>

record 'e dataProvider =
  identity :: nat
  introspect :: "'e settled option"

text \<open>
  The four \<open>useState\<close> cells of lines 132 to 135. The third one is only ever written
  with an updater that throws (line 157), so it holds the queue of the errors those
  updaters throw, oldest first; its value stays undefined.
\<close>

record 'e hooks =
  st_resources :: "resource list"
  st_loading :: bool
  st_error :: "'e exn list"
  st_introspect :: bool

definition initial_hooks :: "'e hooks" where
  "initial_hooks =
     \<lparr>st_resources = [], st_loading = True, st_error = [], st_introspect = True\<rparr>"

text \<open>The message of the error of lines 139 to 141.\<close>

definition missing_introspect :: string where
  "missing_introspect =
     ''The given dataProvider needs to expose an '' @ [CHR 0x22] @ ''introspect'' @ [CHR 0x22]
     @ '' function returning a parsed API documentation from api-doc-parser''"

text \<open>The \<open>then\<close> handler, lines 150 to 154.\<close>

definition on_fulfilled :: "resource list option \<Rightarrow> 'e hooks \<Rightarrow> 'e hooks" where
  "on_fulfilled data_resources s =
     s\<lparr>st_resources := (case data_resources of None \<Rightarrow> [] | Some rs \<Rightarrow> rs),
       st_introspect := False,
       st_loading := False\<rparr>"

text \<open>The \<open>catch\<close> handler, lines 155 to 160: it queues an updater that throws \<open>error\<close>.\<close>

definition on_rejected :: "'e exn \<Rightarrow> 'e hooks \<Rightarrow> 'e hooks" where
  "on_rejected error s = s\<lparr>st_error := st_error s @ [error]\<rparr>"

fun settle :: "'e settled \<Rightarrow> 'e hooks \<Rightarrow> 'e hooks" where
  "settle (Fulfilled data_resources) s = on_fulfilled data_resources s"
| "settle (Rejected error) s = on_rejected error s"

text \<open>
  The body of the effect, lines 138 to 160, up to the call: it throws (\<open>Inl\<close>), returns
  without calling \<open>introspect()\<close> (\<open>Inr None\<close>), or calls it once and attaches the two
  handlers to the promise (\<open>Inr (Some promise)\<close>).
\<close>

definition effect_body :: "'e dataProvider \<Rightarrow> 'e hooks \<Rightarrow> 'e exn + 'e settled option" where
  "effect_body dataProvider s =
     (case introspect dataProvider of
        None \<Rightarrow> Inl (Error missing_introspect)
      | Some promise \<Rightarrow>
          if \<not> st_introspect s then Inr None else Inr (Some promise))"

text \<open>The \<open>introspect\<close> operation of the context value, lines 165 to 168.\<close>

definition introspectionContext_introspect :: "'e hooks \<Rightarrow> 'e hooks" where
  "introspectionContext_introspect s = s\<lparr>st_loading := True, st_introspect := True\<rparr>"

text \<open>
  \<open>useMemo\<close> of React: the cell keeps the dependencies of the last computation and the
  value computed then; the factory runs again (giving an object of a fresh identity)
  only when a dependency differs. Objects and functions are represented by their
  identity.
\<close>

record memo =
  memo_deps :: "nat list"
  memo_value :: nat

definition useMemo :: "memo option \<Rightarrow> nat \<Rightarrow> nat list \<Rightarrow> memo" where
  "useMemo cell fresh deps =
     (case cell of
        None \<Rightarrow> \<lparr>memo_deps = deps, memo_value = fresh\<rparr>
      | Some m \<Rightarrow> if memo_deps m = deps then m else \<lparr>memo_deps = deps, memo_value = fresh\<rparr>)"

text \<open>
  Lines 163 to 171: the context value is memoised on the two state setters, whose
  identities React keeps for the life of the component.
\<close>

definition introspectionContext :: "memo option \<Rightarrow> nat \<Rightarrow> nat \<Rightarrow> nat \<Rightarrow> memo" where
  "introspectionContext cell fresh setLoading setIntrospect =
     useMemo cell fresh [setLoading, setIntrospect]"

text \<open>
  Line 134 during a render: React applies the queued updaters of the cell, and the
  first one throws its error.
\<close>

definition useState_error :: "'e hooks \<Rightarrow> 'e exn option" where
  "useState_error s = (case st_error s of [] \<Rightarrow> None | error # queued \<Rightarrow> Some error)"

text \<open>
  One render of \<open>AdminGuesser\<close>, lines 111 to 203: it throws the queued error, or
  renders \<open>AdminResourcesGuesser\<close> with the current state. \<open>includeDeprecated\<close> is
  optional and defaults to false (line 115).
\<close>

definition AdminGuesser ::
  "(node \<Rightarrow> bool) \<Rightarrow> (node \<Rightarrow> routes_and_resources) \<Rightarrow>
   bool option \<Rightarrow> node \<Rightarrow> 'e hooks \<Rightarrow> 'e exn + render_result" where
  "AdminGuesser isSingleChildFunction getRoutesAndResourcesFromNodes incl ch s =
     (case useState_error s of
        Some error \<Rightarrow> Inl error
      | None \<Rightarrow>
          Inr (AdminResourcesGuesser isSingleChildFunction getRoutesAndResourcesFromNodes
                \<lparr>children = ch,
                 includeDeprecated = (case incl of None \<Rightarrow> False | Some b \<Rightarrow> b),
                 resources = st_resources s,
                 loading = st_loading s\<rparr>))"



section \<open>The life of a mounted \<open>AdminGuesser\<close>\<close>

text \<open>
  The component instance between events: its state cells, the dependencies
  \<open>[introspect, dataProvider]\<close> of the last run of the effect, the promises in flight,
  the number of calls of \<open>introspect()\<close> made so far, and the error that reached the
  error boundary, after which the instance is unmounted and nothing more happens.
\<close>

record 'e fiber =
  hooks :: "'e hooks"
  last_deps :: "(bool \<times> nat) option"
  pending :: "'e settled list"
  fetches :: nat
  thrown :: "'e exn option"

definition mount :: "'e fiber" where
  "mount = \<lparr>hooks = initial_hooks, last_deps = None, pending = [], fetches = 0, thrown = None\<rparr>"

text \<open>
  What can happen to the instance: React renders it with some \<open>dataProvider\<close> prop and
  runs the effect when a dependency changed (\<open>Commit\<close>); the promise at some position
  of the in-flight list settles (\<open>Settle\<close>); a descendant invokes the introspection
  capability (\<open>Invoke\<close>).
\<close>

datatype 'e event = Commit "'e dataProvider" | Settle nat | Invoke

definition run_effect :: "'e dataProvider \<Rightarrow> 'e fiber \<Rightarrow> 'e fiber" where
  "run_effect dataProvider f =
     (case effect_body dataProvider (hooks f) of
        Inl error \<Rightarrow> f\<lparr>thrown := Some error\<rparr>
      | Inr None \<Rightarrow> f
      | Inr (Some promise) \<Rightarrow>
          f\<lparr>pending := pending f @ [promise], fetches := fetches f + 1\<rparr>)"

definition commit :: "'e dataProvider \<Rightarrow> 'e fiber \<Rightarrow> 'e fiber" where
  "commit dataProvider f =
     (case useState_error (hooks f) of
        Some error \<Rightarrow> f\<lparr>thrown := Some error\<rparr>
      | None \<Rightarrow>
          (let deps = (st_introspect (hooks f), identity dataProvider)
           in if last_deps f = Some deps then f
              else (run_effect dataProvider f)\<lparr>last_deps := Some deps\<rparr>))"

fun step :: "'e event \<Rightarrow> 'e fiber \<Rightarrow> 'e fiber" where
  "step ev f =
     (if thrown f \<noteq> None then f
      else case ev of
        Commit dataProvider \<Rightarrow> commit dataProvider f
      | Settle i \<Rightarrow>
          if i < length (pending f)
          then f\<lparr>hooks := settle (pending f ! i) (hooks f),
                 pending := take i (pending f) @ drop (Suc i) (pending f)\<rparr>
          else f
      | Invoke \<Rightarrow> f\<lparr>hooks := introspectionContext_introspect (hooks f)\<rparr>)"

definition run :: "'e event list \<Rightarrow> 'e fiber \<Rightarrow> 'e fiber" where
  "run evs f = fold step evs f"

text \<open>
  The triggers of an introspection in a history that starts at the mount: the mount
  itself (the flag starts true) and every invocation of the capability.
\<close>

fun is_invoke :: "'e event \<Rightarrow> bool" where
  "is_invoke Invoke = True"
| "is_invoke _ = False"

definition triggers :: "'e event list \<Rightarrow> nat" where
  "triggers evs = Suc (length (filter is_invoke evs))"

text \<open>
  A render brings no new provider while the flag is set: when the flag is set and the
  effect last ran with the flag set (so \<open>introspect()\<close> was called since), the
  \<open>dataProvider\<close> of the render has the identity it had at that run. The other events
  are not constrained, nor is a render while the flag is clear.
\<close>

definition same_provider_while_flag :: "'e event \<Rightarrow> 'e fiber \<Rightarrow> bool" where
  "same_provider_while_flag ev f =
     (case ev of
        Commit dataProvider \<Rightarrow>
          (case last_deps f of
             None \<Rightarrow> True
           | Some deps \<Rightarrow>
               if st_introspect (hooks f) \<and> fst deps
               then identity dataProvider = snd deps else True)
      | Settle i \<Rightarrow> True
      | Invoke \<Rightarrow> True)"

fun steady :: "'e event list \<Rightarrow> 'e fiber \<Rightarrow> bool" where
  "steady [] f = True"
| "steady (ev # evs) f = (same_provider_while_flag ev f \<and> steady evs (step ev f))"

text \<open>
  One fetch is still due when the flag is set and the effect has not yet run with the
  flag set.
\<close>

definition due :: "'e fiber \<Rightarrow> nat" where
  "due f =
     (if st_introspect (hooks f)
         \<and> \<not> (case last_deps f of None \<Rightarrow> False | Some deps \<Rightarrow> fst deps)
      then 1 else 0)"

section \<open>Properties of the reconciler\<close>

text \<open>
  C4. While \<open>loading\<close> is true the output is the loading placeholder and nothing else:
  the result is the same for all children, all resources and all helpers, and nothing
  is displayed.
\<close>

theorem loading_renders_placeholder_only:
  "AdminResourcesGuesser isf getRR
     \<lparr>children = ch, includeDeprecated = incl, resources = R, loading = True\<rparr>
   = \<lparr>ui = LoadingPage, displayed = []\<rparr>"
  by (simp add: AdminResourcesGuesser_def)

subsection \<open>The scan keeps the declaration order\<close>

lemma fold_scan_routes:
  assumes "\<And>n acc. n \<in> set ns \<Longrightarrow>
     customRoutes (scan_node n acc) = customRoutes acc @ filter is_custom_route (declared n)"
  shows "customRoutes (fold scan_node ns acc)
     = customRoutes acc @ filter is_custom_route (concat (map declared ns))"
  using assms by (induction ns arbitrary: acc) simp_all

lemma scan_node_routes:
  "customRoutes (scan_node n acc) = customRoutes acc @ filter is_custom_route (declared n)"
proof (induction n arbitrary: acc)
  case (NodeArray ns)
  then show ?case by (simp add: fold_scan_routes)
qed simp_all

lemma fold_scan_resources:
  assumes "\<And>n acc. n \<in> set ns \<Longrightarrow>
     resourceChildren (scan_node n acc)
       = resourceChildren acc @ filter is_resource_declaration (declared n)"
  shows "resourceChildren (fold scan_node ns acc)
     = resourceChildren acc @ filter is_resource_declaration (concat (map declared ns))"
  using assms by (induction ns arbitrary: acc) simp_all

lemma scan_node_resources:
  "resourceChildren (scan_node n acc)
     = resourceChildren acc @ filter is_resource_declaration (declared n)"
proof (induction n arbitrary: acc)
  case (NodeArray ns)
  then show ?case by (simp add: fold_scan_resources)
qed simp_all

subsection \<open>The three branches after loading\<close>

lemma guess_filter:
  "filter (\<lambda>r. \<not> truthy (deprecated r)) R = filter (\<lambda>r. deprecated r \<noteq> Some True) R"
proof (rule filter_cong)
  fix r show "(\<not> truthy (deprecated r)) = (deprecated r \<noteq> Some True)"
    by (cases "deprecated r") auto
qed simp

lemma guessing_branch:
  assumes "\<not> isf ch" and "resourceChildren (getRR ch) = []"
  shows "AdminResourcesGuesser isf getRR
           \<lparr>children = ch, includeDeprecated = incl, resources = R, loading = False\<rparr>
         = \<lparr>ui = AdminEl (NodeArray (customRoutes (getRR ch)
                  @ map guesser_element (guessResources incl R))),
            displayed = [getOverrideCode (guessResources incl R)]\<rparr>"
  using assms by (simp add: AdminResourcesGuesser_def truthy_array_def Let_def)

text \<open>
  C1. In the guessing branch (the children are not a function child and the scan found
  no resource declaration) the generated elements are those of \<open>guessResources\<close>, after
  the custom routes. Without \<open>includeDeprecated\<close> these are the resources of \<open>R\<close> whose
  \<open>deprecated\<close> is not true, in the order of \<open>R\<close>; with it, all of \<open>R\<close> in order. An empty
  \<open>R\<close> gives no generated element, and the render still returns the admin root.
\<close>

theorem guessed_children_respect_deprecation:
  assumes "\<not> isf ch" and "resourceChildren (getRR ch) = []"
  shows "ui (AdminResourcesGuesser isf getRR
              \<lparr>children = ch, includeDeprecated = incl, resources = R, loading = False\<rparr>)
           = AdminEl (NodeArray (customRoutes (getRR ch)
                @ map guesser_element (guessResources incl R)))
       \<and> guessResources False R = filter (\<lambda>r. deprecated r \<noteq> Some True) R
       \<and> guessResources True R = R
       \<and> map guesser_element (guessResources incl []) = []"
proof -
  have "guessResources False R = filter (\<lambda>r. deprecated r \<noteq> Some True) R"
    by (simp add: guessResources_def guess_filter)
  moreover have "guessResources True R = R"
    by (simp add: guessResources_def)
  moreover have "map guesser_element (guessResources incl []) = []"
    by (simp add: guessResources_def)
  ultimately show ?thesis
    using assms guessing_branch [of isf ch getRR incl R] by simp
qed

theorem guessed_children_respect_deprecation_witness:
  "ui (AdminResourcesGuesser isSingleChildFunction_spec getRoutesAndResourcesFromNodes_spec
        \<lparr>children = NodeArray [], includeDeprecated = False,
         resources = [\<lparr>name = ''books'', deprecated = Some False\<rparr>,
                      \<lparr>name = ''reviews'', deprecated = Some True\<rparr>,
                      \<lparr>name = ''authors'', deprecated = None\<rparr>],
         loading = False\<rparr>)
   = AdminEl (NodeArray [ResourceGuesserEl ''books'' (Some ''books''),
                         ResourceGuesserEl ''authors'' (Some ''authors'')])
   \<and> ui (AdminResourcesGuesser isSingleChildFunction_spec getRoutesAndResourcesFromNodes_spec
        \<lparr>children = NodeArray [], includeDeprecated = False, resources = [],
         loading = False\<rparr>)
   = AdminEl (NodeArray [])"
  using guessed_children_respect_deprecation
    [of isSingleChildFunction_spec "NodeArray []" getRoutesAndResourcesFromNodes_spec False
        "[\<lparr>name = ''books'', deprecated = Some False\<rparr>,
          \<lparr>name = ''reviews'', deprecated = Some True\<rparr>,
          \<lparr>name = ''authors'', deprecated = None\<rparr>]"]
    guessed_children_respect_deprecation
    [of isSingleChildFunction_spec "NodeArray []" getRoutesAndResourcesFromNodes_spec False
        "[]"]
  by (simp add: getRoutesAndResourcesFromNodes_spec_def guesser_element_def)

text \<open>
  C2. After loading, when the scan of the declared children found at least one
  resource declaration, the declared children are rendered as they are and the
  guessing path does not run (nothing is generated, nothing is displayed), whatever
  \<open>resources\<close> holds.
\<close>

theorem explicit_declarations_win:
  assumes "resourceChildren (getRR ch) \<noteq> []"
  shows "AdminResourcesGuesser isf getRR
           \<lparr>children = ch, includeDeprecated = incl, resources = R, loading = False\<rparr>
         = \<lparr>ui = AdminEl ch, displayed = []\<rparr>"
  using assms by (simp add: AdminResourcesGuesser_def Let_def)

theorem explicit_declarations_win_witness:
  "AdminResourcesGuesser isSingleChildFunction_spec getRoutesAndResourcesFromNodes_spec
     \<lparr>children = NodeArray [CustomRoutesEl 7, ResourceGuesserEl ''books'' None],
      includeDeprecated = True,
      resources = [\<lparr>name = ''books'', deprecated = Some False\<rparr>,
                   \<lparr>name = ''reviews'', deprecated = Some True\<rparr>],
      loading = False\<rparr>
   = \<lparr>ui = AdminEl (NodeArray [CustomRoutesEl 7, ResourceGuesserEl ''books'' None]),
      displayed = []\<rparr>"
  using explicit_declarations_win
    [of getRoutesAndResourcesFromNodes_spec
        "NodeArray [CustomRoutesEl 7, ResourceGuesserEl ''books'' None]"
        isSingleChildFunction_spec True
        "[\<lparr>name = ''books'', deprecated = Some False\<rparr>,
          \<lparr>name = ''reviews'', deprecated = Some True\<rparr>]"]
  by (simp add: getRoutesAndResourcesFromNodes_spec_def)

text \<open>
  C3. After loading, when the children are a single function, that function is what
  the admin root receives, and no resource is filtered or generated (nothing is
  displayed), whatever \<open>resources\<close> holds.
\<close>

theorem render_prop_passes_through:
  assumes "isf ch"
  shows "AdminResourcesGuesser isf getRR
           \<lparr>children = ch, includeDeprecated = incl, resources = R, loading = False\<rparr>
         = \<lparr>ui = AdminEl ch, displayed = []\<rparr>"
  using assms by (simp add: AdminResourcesGuesser_def Let_def)

theorem render_prop_passes_through_witness:
  "AdminResourcesGuesser isSingleChildFunction_spec getRoutesAndResourcesFromNodes_spec
     \<lparr>children = RenderFunction 0, includeDeprecated = False,
      resources = [\<lparr>name = ''books'', deprecated = Some False\<rparr>],
      loading = False\<rparr>
   = \<lparr>ui = AdminEl (RenderFunction 0), displayed = []\<rparr>"
  using render_prop_passes_through
    [of isSingleChildFunction_spec "RenderFunction 0" getRoutesAndResourcesFromNodes_spec
        False "[\<lparr>name = ''books'', deprecated = Some False\<rparr>]"]
  by simp

text \<open>
  C9. When the guessing branch runs, the children handed to the admin root are the
  custom routes the scan collected, then one generated element per remaining
  resource (all of \<open>R\<close> with \<open>includeDeprecated\<close>, otherwise those whose \<open>deprecated\<close> is
  not true), in the order of \<open>R\<close>, each with the resource's name as its \<open>name\<close> and as
  its \<open>key\<close>. With the scan as the spec describes it, the collected custom routes are
  the custom-route elements of the declared tree in their declaration order.
\<close>

theorem guessing_emits_routes_then_views:
  assumes "\<not> isf ch" and "resourceChildren (getRR ch) = []"
  shows "ui (AdminResourcesGuesser isf getRR
              \<lparr>children = ch, includeDeprecated = incl, resources = R, loading = False\<rparr>)
           = AdminEl (NodeArray (customRoutes (getRR ch)
                @ map (\<lambda>r. ResourceGuesserEl (name r) (Some (name r)))
                      (if incl then R else filter (\<lambda>r. deprecated r \<noteq> Some True) R)))
       \<and> customRoutes (getRoutesAndResourcesFromNodes_spec ch)
           = filter is_custom_route (declared ch)"
proof -
  have "map guesser_element (guessResources incl R)
      = map (\<lambda>r. ResourceGuesserEl (name r) (Some (name r)))
            (if incl then R else filter (\<lambda>r. deprecated r \<noteq> Some True) R)"
    by (simp add: guesser_element_def guessResources_def guess_filter)
  moreover have "customRoutes (getRoutesAndResourcesFromNodes_spec ch)
      = filter is_custom_route (declared ch)"
    by (simp add: getRoutesAndResourcesFromNodes_spec_def scan_node_routes)
  ultimately show ?thesis
    using assms guessing_branch [of isf ch getRR incl R] by simp
qed

theorem guessing_emits_routes_then_views_witness:
  "ui (AdminResourcesGuesser isSingleChildFunction_spec getRoutesAndResourcesFromNodes_spec
        \<lparr>children = NodeArray [CustomRoutesEl 1, NodeArray [OtherNode 3, CustomRoutesEl 2]],
         includeDeprecated = False,
         resources = [\<lparr>name = ''books'', deprecated = Some False\<rparr>,
                      \<lparr>name = ''reviews'', deprecated = Some True\<rparr>,
                      \<lparr>name = ''authors'', deprecated = None\<rparr>],
         loading = False\<rparr>)
   = AdminEl (NodeArray [CustomRoutesEl 1, CustomRoutesEl 2,
                         ResourceGuesserEl ''books'' (Some ''books''),
                         ResourceGuesserEl ''authors'' (Some ''authors'')])
   \<and> ui (AdminResourcesGuesser isSingleChildFunction_spec getRoutesAndResourcesFromNodes_spec
        \<lparr>children = NodeArray [CustomRoutesEl 1, NodeArray [OtherNode 3, CustomRoutesEl 2]],
         includeDeprecated = True,
         resources = [\<lparr>name = ''books'', deprecated = Some False\<rparr>,
                      \<lparr>name = ''reviews'', deprecated = Some True\<rparr>,
                      \<lparr>name = ''authors'', deprecated = None\<rparr>],
         loading = False\<rparr>)
   = AdminEl (NodeArray [CustomRoutesEl 1, CustomRoutesEl 2,
                         ResourceGuesserEl ''books'' (Some ''books''),
                         ResourceGuesserEl ''reviews'' (Some ''reviews''),
                         ResourceGuesserEl ''authors'' (Some ''authors'')])"
  using guessing_emits_routes_then_views
    [of isSingleChildFunction_spec
        "NodeArray [CustomRoutesEl 1, NodeArray [OtherNode 3, CustomRoutesEl 2]]"
        getRoutesAndResourcesFromNodes_spec False
        "[\<lparr>name = ''books'', deprecated = Some False\<rparr>,
          \<lparr>name = ''reviews'', deprecated = Some True\<rparr>,
          \<lparr>name = ''authors'', deprecated = None\<rparr>]"]
    guessing_emits_routes_then_views
    [of isSingleChildFunction_spec
        "NodeArray [CustomRoutesEl 1, NodeArray [OtherNode 3, CustomRoutesEl 2]]"
        getRoutesAndResourcesFromNodes_spec True
        "[\<lparr>name = ''books'', deprecated = Some False\<rparr>,
          \<lparr>name = ''reviews'', deprecated = Some True\<rparr>,
          \<lparr>name = ''authors'', deprecated = None\<rparr>]"]
  by (simp add: getRoutesAndResourcesFromNodes_spec_def)

section \<open>Properties of the orchestrator\<close>

subsection \<open>Histories\<close>

lemma run_Nil: "run [] f = f" by (simp add: run_def)
lemma run_Cons: "run (ev # evs) f = run evs (step ev f)" by (simp add: run_def)
lemma run_append: "run (xs @ ys) f = run ys (run xs f)" by (simp add: run_def)

lemma run_thrown: "thrown f \<noteq> None \<Longrightarrow> run evs f = f"
  by (induction evs) (simp_all add: run_Nil run_Cons)

lemma commit_budget:
  assumes "same_provider_while_flag (Commit dp) f"
  shows "fetches (commit dp f) + due (commit dp f) \<le> fetches f + due f"
proof (cases "useState_error (hooks f)")
  case (Some e)
  then show ?thesis by (simp add: commit_def due_def)
next
  case None
  show ?thesis
  proof (cases "last_deps f = Some (st_introspect (hooks f), identity dp)")
    case True
    with None show ?thesis by (simp add: commit_def)
  next
    case changed: False
    show ?thesis
    proof (cases "st_introspect (hooks f)")
      case False
      with None changed show ?thesis
        by (simp add: commit_def run_effect_def effect_body_def due_def
                 split: option.splits)
    next
      case True
      have "\<not> (case last_deps f of None \<Rightarrow> False | Some deps \<Rightarrow> fst deps)"
      proof (cases "last_deps f")
        case None
        then show ?thesis by simp
      next
        case (Some deps)
        show ?thesis
        proof
          assume "case last_deps f of None \<Rightarrow> False | Some deps \<Rightarrow> fst deps"
          with Some have "fst deps" by simp
          with assms Some True have "identity dp = snd deps"
            by (simp add: same_provider_while_flag_def)
          with \<open>fst deps\<close> True have "deps = (st_introspect (hooks f), identity dp)"
            by (simp add: prod_eq_iff)
          with Some changed show False by simp
        qed
      qed
      with True have "due f = 1" by (simp add: due_def)
      with None changed True show ?thesis
        by (simp add: commit_def run_effect_def effect_body_def due_def
                 split: option.splits)
    qed
  qed
qed

lemma settle_flag: "st_introspect (settle p s) \<Longrightarrow> st_introspect s"
  by (cases p) (simp_all add: on_fulfilled_def on_rejected_def)

lemma step_budget:
  assumes "same_provider_while_flag ev f"
  shows "fetches (step ev f) + due (step ev f)
           \<le> fetches f + due f + (if is_invoke ev then 1 else 0)"
proof (cases "thrown f \<noteq> None")
  case True
  then show ?thesis by simp
next
  case False
  show ?thesis
  proof (cases ev)
    case (Commit dp)
    with assms False commit_budget [of dp f] show ?thesis by simp
  next
    case (Settle i)
    with False show ?thesis
      by (auto simp: due_def dest: settle_flag)
  next
    case Invoke
    with False show ?thesis
      by (simp add: due_def introspectionContext_introspect_def)
  qed
qed

lemma run_budget:
  assumes "steady evs f"
  shows "fetches (run evs f) + due (run evs f)
           \<le> fetches f + due f + length (filter is_invoke evs)"
  using assms
proof (induction evs arbitrary: f)
  case Nil
  then show ?case by (simp add: run_Nil)
next
  case (Cons ev evs)
  have "fetches (run evs (step ev f)) + due (run evs (step ev f))
          \<le> fetches (step ev f) + due (step ev f) + length (filter is_invoke evs)"
    using Cons by (simp del: step.simps)
  moreover have "fetches (step ev f) + due (step ev f)
          \<le> fetches f + due f + (if is_invoke ev then 1 else 0)"
    using Cons.prems by (intro step_budget) (simp del: step.simps)
  ultimately show ?case
    by (cases "is_invoke ev") (simp_all add: run_Cons del: step.simps)
qed



subsection \<open>The claims about the orchestrator\<close>

lemmas machine_defs =
  run_def commit_def useState_error_def run_effect_def effect_body_def mount_def
  initial_hooks_def
  on_fulfilled_def on_rejected_def introspectionContext_introspect_def Let_def

text \<open>
  C5. With a data provider whose \<open>introspect\<close> is not a function, the body of the effect
  throws in every state, before it looks at the flag and without calling anything.
  When the effect runs for such a provider (a dependency changed), the error reaches
  the boundary, the count of calls of \<open>introspect()\<close> and the state are as before, and
  whatever happens afterwards changes nothing: no retry, no recovery, no fetch.
\<close>

theorem missing_introspect_is_fatal:
  assumes "introspect dp = None"
      and "thrown f = None" and "st_error (hooks f) = []"
      and "last_deps f \<noteq> Some (st_introspect (hooks f), identity dp)"
  shows "effect_body dp s = Inl (Error missing_introspect)
       \<and> thrown (run (Commit dp # evs) f) = Some (Error missing_introspect)
       \<and> fetches (run (Commit dp # evs) f) = fetches f
       \<and> pending (run (Commit dp # evs) f) = pending f
       \<and> hooks (run (Commit dp # evs) f) = hooks f"
proof -
  let ?g = "step (Commit dp) f"
  have body: "effect_body dp s = Inl (Error missing_introspect)" for s
    using assms(1) by (simp add: effect_body_def)
  have g: "?g = f\<lparr>thrown := Some (Error missing_introspect),
                   last_deps := Some (st_introspect (hooks f), identity dp)\<rparr>"
    using assms(2-4) by (simp add: commit_def useState_error_def run_effect_def body Let_def)
  then have "thrown ?g \<noteq> None" by simp
  then have "run (Commit dp # evs) f = ?g"
    by (simp add: run_Cons run_thrown del: step.simps)
  with g body show ?thesis by simp
qed

theorem missing_introspect_is_fatal_witness:
  "thrown (run [Commit \<lparr>identity = 0, introspect = None\<rparr>, Invoke,
                Commit \<lparr>identity = 1, introspect = Some (Fulfilled None)\<rparr>]
             (mount :: unit fiber))
     = Some (Error missing_introspect)
   \<and> fetches (run [Commit \<lparr>identity = 0, introspect = None\<rparr>, Invoke,
                   Commit \<lparr>identity = 1, introspect = Some (Fulfilled None)\<rparr>]
                (mount :: unit fiber)) = 0"
  using missing_introspect_is_fatal
    [of "\<lparr>identity = 0, introspect = None\<rparr>" "mount :: unit fiber" initial_hooks
        "[Invoke, Commit \<lparr>identity = 1, introspect = Some (Fulfilled None)\<rparr>]"]
  by (simp add: mount_def initial_hooks_def)

text \<open>
  C6. When the promise is fulfilled with \<open>{ data }\<close>, the resources of the state become
  \<open>data.resources\<close>, or the empty list when that member is absent, and \<open>loading\<close> (with
  the flag) becomes false. The new state does not depend on the resources held
  before: they are replaced, not merged.
\<close>

theorem fulfilled_replaces_resources:
  "st_resources (settle (Fulfilled d) s) = (case d of None \<Rightarrow> [] | Some rs \<Rightarrow> rs)
   \<and> st_loading (settle (Fulfilled d) s) = False
   \<and> st_introspect (settle (Fulfilled d) s) = False
   \<and> st_error (settle (Fulfilled d) s) = st_error s
   \<and> settle (Fulfilled d) (s\<lparr>st_resources := old\<rparr>) = settle (Fulfilled d) s"
  by (simp add: on_fulfilled_def)




text \<open>
  C8. Invoking the capability sets \<open>loading\<close> and the flag to true and leaves the
  resources. At the next render the effect calls \<open>introspect()\<close> once (unless it has
  already run with the flag set for this provider), and when that promise is
  fulfilled \<open>loading\<close> is false again and the resources are those of the new result;
  the same holds for any promise fulfilled after an invocation.
  The context value keeps its identity from render to render: \<open>useMemo\<close> gives a new
  one only when a dependency differs, and the dependencies are the two state setters.
\<close>

theorem reintrospection_cycle:
  assumes "thrown f = None" and "st_error (hooks f) = []"
      and "last_deps f \<noteq> Some (True, identity dp)"
      and "introspect dp = Some (Fulfilled d)"
  shows "st_loading (hooks (run [Invoke] f))
       \<and> st_introspect (hooks (run [Invoke] f))
       \<and> st_resources (hooks (run [Invoke] f)) = st_resources (hooks f)
       \<and> pending (run [Invoke, Commit dp] f) = pending f @ [Fulfilled d]
       \<and> fetches (run [Invoke, Commit dp] f) = fetches f + 1
       \<and> \<not> st_loading (hooks (run [Invoke, Commit dp, Settle (length (pending f))] f))
       \<and> st_resources (hooks (run [Invoke, Commit dp, Settle (length (pending f))] f))
           = (case d of None \<Rightarrow> [] | Some rs \<Rightarrow> rs)
       \<and> \<not> st_loading (settle (Fulfilled d') (introspectionContext_introspect s))
       \<and> st_resources (settle (Fulfilled d') (introspectionContext_introspect s))
           = (case d' of None \<Rightarrow> [] | Some rs \<Rightarrow> rs)
       \<and> introspectionContext (Some (introspectionContext cell a setLoading setIntrospect))
            b setLoading setIntrospect
           = introspectionContext cell a setLoading setIntrospect
       \<and> (memo_value (useMemo (Some m) b deps) \<noteq> memo_value m \<longrightarrow> deps \<noteq> memo_deps m)"
proof -
  have 1: "run [Invoke] f = f\<lparr>hooks := (hooks f)\<lparr>st_loading := True, st_introspect := True\<rparr>\<rparr>"
    using assms(1) by (simp add: run_def introspectionContext_introspect_def)
  have 2: "run [Invoke, Commit dp] f
         = f\<lparr>hooks := (hooks f)\<lparr>st_loading := True, st_introspect := True\<rparr>,
             last_deps := Some (True, identity dp),
             pending := pending f @ [Fulfilled d],
             fetches := fetches f + 1\<rparr>"
    using assms by (simp add: machine_defs)
  have "run [Invoke, Commit dp, Settle (length (pending f))] f
         = step (Settle (length (pending f))) (run [Invoke, Commit dp] f)"
    by (simp add: run_def del: step.simps)
  then have 3: "hooks (run [Invoke, Commit dp, Settle (length (pending f))] f)
         = on_fulfilled d ((hooks f)\<lparr>st_loading := True, st_introspect := True\<rparr>)"
    using assms(1) by (simp add: 2)
  have 4: "introspectionContext (Some (introspectionContext cell a setLoading setIntrospect))
            b setLoading setIntrospect
           = introspectionContext cell a setLoading setIntrospect"
    by (simp add: introspectionContext_def useMemo_def split: option.splits)
  have 5: "memo_value (useMemo (Some m) b deps) \<noteq> memo_value m \<longrightarrow> deps \<noteq> memo_deps m"
    by (simp add: useMemo_def)
  show ?thesis
    unfolding 3 using 1 2 4 5
    by (simp add: on_fulfilled_def introspectionContext_introspect_def)
qed

theorem reintrospection_cycle_witness:
  "st_resources (hooks (run
      [Commit \<lparr>identity = 0, introspect = Some (Fulfilled (Some [\<lparr>name = ''old'', deprecated = None\<rparr>]))\<rparr>,
       Settle 0,
       Commit \<lparr>identity = 0, introspect = Some (Fulfilled (Some [\<lparr>name = ''old'', deprecated = None\<rparr>]))\<rparr>,
       Invoke,
       Commit \<lparr>identity = 0, introspect = Some (Fulfilled (Some [\<lparr>name = ''new'', deprecated = None\<rparr>]))\<rparr>,
       Settle 0] (mount :: unit fiber)))
   = [\<lparr>name = ''new'', deprecated = None\<rparr>]"
  using reintrospection_cycle
    [of "run [Commit \<lparr>identity = 0, introspect = Some (Fulfilled (Some [\<lparr>name = ''old'', deprecated = None\<rparr>]))\<rparr>,
              Settle 0,
              Commit \<lparr>identity = 0, introspect = Some (Fulfilled (Some [\<lparr>name = ''old'', deprecated = None\<rparr>]))\<rparr>]
           (mount :: unit fiber)"
        "\<lparr>identity = 0, introspect = Some (Fulfilled (Some [\<lparr>name = ''new'', deprecated = None\<rparr>]))\<rparr>"
        "Some [\<lparr>name = ''new'', deprecated = None\<rparr>]"]
  by (simp add: machine_defs)

text \<open>
  C10, as stated, fails: after the mount (one trigger, no invocation of the
  capability) a render with a \<open>dataProvider\<close> of another identity, while the first
  promise is still in flight, runs the effect again with the flag still true, and
  \<open>introspect()\<close> is called a second time.
\<close>

theorem one_trigger_two_fetches:
  "fetches (run [Commit \<lparr>identity = 0, introspect = Some (Fulfilled None)\<rparr>,
                 Commit \<lparr>identity = 1, introspect = Some (Fulfilled None)\<rparr>]
              (mount :: unit fiber)) = 2
   \<and> triggers [Commit \<lparr>identity = 0, introspect = Some (Fulfilled None)\<rparr>,
                Commit \<lparr>identity = 1, introspect = Some (Fulfilled None) :: unit settled option\<rparr>] = 1
   \<and> \<not> fetches (run [Commit \<lparr>identity = 0, introspect = Some (Fulfilled None)\<rparr>,
                 Commit \<lparr>identity = 1, introspect = Some (Fulfilled None)\<rparr>]
              (mount :: unit fiber))
       \<le> triggers [Commit \<lparr>identity = 0, introspect = Some (Fulfilled None)\<rparr>,
                Commit \<lparr>identity = 1, introspect = Some (Fulfilled None) :: unit settled option\<rparr>]"
  by (simp add: machine_defs triggers_def)

text \<open>
  C10, amended. The validation comes before the guard: without an \<open>introspect\<close>
  function the body of the effect throws in every state, also when the flag is false.
  With the function and the flag false, the effect returns without calling it. And
  in every history from the mount in which no render brings a \<open>dataProvider\<close> of
  another identity while the flag is set and \<open>introspect()\<close> has been called for it,
  the number of calls of \<open>introspect()\<close> is at most the number of triggers. The
  provider may change freely while the flag is clear, for example after a completed
  fetch.
\<close>

theorem guard_limits_fetches:
  fixes evs :: "'e event list"
  assumes "steady evs (mount :: 'e fiber)"
  shows "(introspect dp = None \<longrightarrow> effect_body dp s = Inl (Error missing_introspect))
       \<and> (introspect dp = Some p \<longrightarrow> \<not> st_introspect s \<longrightarrow> effect_body dp s = Inr None)
       \<and> fetches (run evs (mount :: 'e fiber)) \<le> triggers evs"
proof -
  let ?m = "mount :: 'e fiber"
  have "fetches (run evs ?m) + due (run evs ?m)
          \<le> fetches ?m + due ?m + length (filter is_invoke evs)"
    using assms by (rule run_budget)
  moreover have "fetches ?m + due ?m = 1"
    by (simp add: mount_def due_def initial_hooks_def)
  ultimately have "fetches (run evs ?m) \<le> triggers evs"
    by (simp add: triggers_def)
  then show ?thesis by (simp add: effect_body_def)
qed

theorem guard_limits_fetches_witness:
  "fetches (run [Commit \<lparr>identity = 0, introspect = Some (Fulfilled None)\<rparr>, Settle 0,
                 Commit \<lparr>identity = 1, introspect = Some (Fulfilled None)\<rparr>, Invoke,
                 Commit \<lparr>identity = 2, introspect = Some (Fulfilled None)\<rparr>, Settle 0,
                 Commit \<lparr>identity = 2, introspect = Some (Fulfilled None)\<rparr>]
              (mount :: unit fiber))
     \<le> 2
   \<and> effect_body \<lparr>identity = 1, introspect = None\<rparr>
        (hooks (run [Commit \<lparr>identity = 0, introspect = Some (Fulfilled None)\<rparr>, Settle 0]
                  (mount :: unit fiber)))
     = Inl (Error missing_introspect)
   \<and> effect_body \<lparr>identity = 1, introspect = Some (Fulfilled None)\<rparr>
        (hooks (run [Commit \<lparr>identity = 0, introspect = Some (Fulfilled None)\<rparr>, Settle 0]
                  (mount :: unit fiber)))
     = Inr None"
  using guard_limits_fetches
    [of "[Commit \<lparr>identity = 0, introspect = Some (Fulfilled None)\<rparr>, Settle 0,
          Commit \<lparr>identity = 1, introspect = Some (Fulfilled None)\<rparr>, Invoke,
          Commit \<lparr>identity = 2, introspect = Some (Fulfilled None)\<rparr>, Settle 0,
          Commit \<lparr>identity = 2, introspect = Some (Fulfilled None)\<rparr>] :: unit event list"
        "\<lparr>identity = 1, introspect = None\<rparr>"
        "hooks (run [Commit \<lparr>identity = 0, introspect = Some (Fulfilled None)\<rparr>, Settle 0]
                  (mount :: unit fiber))"]
  by (simp add: machine_defs triggers_def same_provider_while_flag_def)

end
